theory Spec2Isabelle
  imports Main "HOL-Library.Word"
begin

unbundle bit_operations_syntax

section \<open>The \<open>cert cluster\<close> command of docket (\<open>cmd/cert-cluster.go\<close>)\<close>

text \<open>
  The command has two callbacks, \<open>PreRunE\<close> and \<open>RunE\<close>, over one option struct.
  Everything else it touches belongs to Go's standard library or to the operating system:
  the IP parser, the PEM and X.509 codecs, the RSA key generator, the clock and the file
  system. Those collaborators are parameters of the model (the record \<open>lib\<close>); the two
  callbacks are translated line by line.
\<close>

subsection \<open>Data\<close>

type_synonym bytes = "8 word list"

text \<open>A Go slice of bytes that may be \<open>nil\<close>: \<open>net.IP\<close>. \<open>None\<close> is the nil slice.\<close>

type_synonym IP = "bytes option"

text \<open>\<open>certClusterOptions\<close> (lines 35-47), the nested structs \<open>CA\<close> and \<open>Out\<close> flattened.\<close>

record certClusterOptions =
  CA_Crt :: string
  CA_Key :: string
  Out_Bit :: int
  Out_Com :: string
  Out_Org :: string
  Out_Crt :: string
  Out_Key :: string

text \<open>An error value handed back by the library or the operating system.\<close>

datatype lib_error = LibError string

text \<open>
  The command's own errors are all built by \<open>fmt.Errorf\<close>: the format string and its
  operands are kept as they appear in the call.
\<close>

datatype fmt_arg = StrArg string | ErrArg lib_error

datatype error = Errorf string "fmt_arg list"

text \<open>How a callback ends: it returns (\<open>nil\<close> or an error), or the Go runtime panics.\<close>

datatype outcome = Returned "error option" | Panicked string

text \<open>\<open>pem.Block\<close>.\<close>

record pem_Block =
  Type :: string
  Headers :: "(string \<times> string) list"
  Bytes :: bytes

text \<open>\<open>rsa.PublicKey\<close> and \<open>rsa.PrivateKey\<close>.\<close>

record rsa_PublicKey =
  rsa_N :: int
  rsa_E :: int

record rsa_PrivateKey =
  PublicKey :: rsa_PublicKey
  rsa_D :: int
  rsa_Primes :: "int list"

text \<open>\<open>pkix.Name\<close> and the enumerations of \<open>crypto/x509\<close> that the template mentions.\<close>

record pkix_Name =
  CommonName :: string
  Organization :: "string list"

datatype x509_SignatureAlgorithm =
  UnknownSignatureAlgorithm | MD2WithRSA | MD5WithRSA | SHA1WithRSA | SHA256WithRSA
  | SHA384WithRSA | SHA512WithRSA | DSAWithSHA1 | DSAWithSHA256 | ECDSAWithSHA1
  | ECDSAWithSHA256 | ECDSAWithSHA384 | ECDSAWithSHA512

datatype x509_PublicKeyAlgorithm = UnknownPublicKeyAlgorithm | RSA | DSA | ECDSA

datatype x509_ExtKeyUsage =
  ExtKeyUsageAny | ExtKeyUsageServerAuth | ExtKeyUsageClientAuth | ExtKeyUsageCodeSigning
  | ExtKeyUsageEmailProtection | ExtKeyUsageIPSECEndSystem | ExtKeyUsageIPSECTunnel
  | ExtKeyUsageIPSECUser | ExtKeyUsageTimeStamping | ExtKeyUsageOCSPSigning

text \<open>
  \<open>x509.KeyUsage\<close> is an \<open>int\<close> bit set; the constants are declared as \<open>1 << iota\<close> in
  this order.
\<close>

definition KeyUsageDigitalSignature :: int where "KeyUsageDigitalSignature = push_bit 0 1"
definition KeyUsageContentCommitment :: int where "KeyUsageContentCommitment = push_bit 1 1"
definition KeyUsageKeyEncipherment :: int where "KeyUsageKeyEncipherment = push_bit 2 1"
definition KeyUsageDataEncipherment :: int where "KeyUsageDataEncipherment = push_bit 3 1"
definition KeyUsageKeyAgreement :: int where "KeyUsageKeyAgreement = push_bit 4 1"
definition KeyUsageCertSign :: int where "KeyUsageCertSign = push_bit 5 1"
definition KeyUsageCRLSign :: int where "KeyUsageCRLSign = push_bit 6 1"
definition KeyUsageEncipherOnly :: int where "KeyUsageEncipherOnly = push_bit 7 1"
definition KeyUsageDecipherOnly :: int where "KeyUsageDecipherOnly = push_bit 8 1"

text \<open>
  \<open>x509.Certificate\<close>, with the fields the command sets; \<open>IsCA\<close> is listed because the
  struct literal leaves it at Go's zero value. \<open>'t\<close> is \<open>time.Time\<close>.
\<close>

record 't Certificate =
  Subject :: pkix_Name
  BasicConstraintsValid :: bool
  IsCA :: bool
  SignatureAlgorithm :: x509_SignatureAlgorithm
  PublicKeyAlgorithm :: x509_PublicKeyAlgorithm
  NotBefore :: 't
  NotAfter :: 't
  SerialNumber :: int
  KeyUsage :: int
  ExtKeyUsage :: "x509_ExtKeyUsage list"
  DNSNames :: "string list"
  IPAddresses :: "IP list"

subsection \<open>The collaborators\<close>

text \<open>
  One field per library or system call of the source. \<open>'fs\<close> is the state of the file
  system. \<open>Now n\<close> is what the \<open>n\<close>-th call of \<open>time.Now()\<close> in this process returns;
  \<open>GenerateKey\<close> and \<open>CreateCertificate\<close> are called with \<open>rand.Reader\<close>, whose
  bytes are part of the function. \<open>pem_Decode\<close> gives the block pointer (\<open>None\<close> is
  \<open>nil\<close>); the rest of the input, its second result, is dropped by the source.
\<close>

record ('fs, 't) lib =
  ParseIP :: "string \<Rightarrow> IP"
  To4 :: "IP \<Rightarrow> IP"
  To16 :: "IP \<Rightarrow> IP"
  ReadFile :: "'fs \<Rightarrow> string \<Rightarrow> lib_error + bytes"
  WriteFile :: "'fs \<Rightarrow> string \<Rightarrow> bytes \<Rightarrow> nat \<Rightarrow> lib_error option \<times> 'fs"
  pem_Decode :: "bytes \<Rightarrow> pem_Block option"
  pem_EncodeToMemory :: "pem_Block \<Rightarrow> bytes"
  ParseCertificate :: "bytes \<Rightarrow> lib_error + 't Certificate"
  ParsePKCS1PrivateKey :: "bytes \<Rightarrow> lib_error + rsa_PrivateKey"
  MarshalPKCS1PrivateKey :: "rsa_PrivateKey \<Rightarrow> bytes"
  GenerateKey :: "int \<Rightarrow> lib_error + rsa_PrivateKey"
  CreateCertificate ::
    "'t Certificate \<Rightarrow> 't Certificate \<Rightarrow> rsa_PublicKey \<Rightarrow> rsa_PrivateKey \<Rightarrow> lib_error + bytes"
  Now :: "nat \<Rightarrow> 't"
  AddDate :: "'t \<Rightarrow> int \<Rightarrow> int \<Rightarrow> int \<Rightarrow> 't"
  UnixNano :: "'t \<Rightarrow> int"

subsection \<open>The state a run acts on\<close>

text \<open>
  What the process does to the outside, in order: each file read, each file write with
  its data, permission argument and result, each log line, and the two expensive
  cryptographic calls with their arguments.
\<close>

datatype 't event =
  EvReadFile string
  | EvWriteFile string bytes nat "lib_error option"
  | EvLog string "fmt_arg list"
  | EvGenerateKey int
  | EvCreateCertificate "'t Certificate" "'t Certificate" rsa_PublicKey rsa_PrivateKey

record ('fs, 't) world =
  fs :: 'fs
  ticks :: nat
  trace :: "'t event list"

definition emit :: "'t event \<Rightarrow> ('fs, 't) world \<Rightarrow> ('fs, 't) world" where
  "emit ev w = w\<lparr>trace := trace w @ [ev]\<rparr>"

text \<open>The permission literal \<open>0644\<close> (octal).\<close>

definition perm_0644 :: nat where
  "perm_0644 = 6 * 64 + 4 * 8 + 4"

subsection \<open>\<open>PreRunE\<close> (lines 55-79)\<close>

definition PreRunE :: "certClusterOptions \<Rightarrow> error option" where
  "PreRunE opt =
     (if length (CA_Crt opt) = 0 then
        Some (Errorf ''Please provide a CA certificate file path.'' [])
      else if length (CA_Key opt) = 0 then
        Some (Errorf ''Please provide a CA private key file path.'' [])
      else if length (Out_Org opt) = 0 then
        Some (Errorf ''Please provide an organisation name.'' [])
      else if length (Out_Crt opt) = 0 then
        Some (Errorf ''Please provide a certificate file path.'' [])
      else if length (Out_Key opt) = 0 then
        Some (Errorf ''Please provide a private key file path.'' [])
      else None)"

subsection \<open>\<open>RunE\<close> (lines 80-179)\<close>

text \<open>
  The loop of lines 87-97 over the positional arguments, with the two slices \<open>dns\<close> and
  \<open>ips\<close> as accumulators; \<open>append\<close> adds at the end.
\<close>

fun classify_loop ::
  "('fs, 't) lib \<Rightarrow> string list \<Rightarrow> string list \<times> IP list \<Rightarrow> string list \<times> IP list"
where
  "classify_loop L [] (dns, ips) = (dns, ips)"
| "classify_loop L (v # vs) (dns, ips) =
     (let chk = ParseIP L v in
      if To4 L chk \<noteq> None then classify_loop L vs (dns, ips @ [To4 L chk])
      else if To16 L chk \<noteq> None then classify_loop L vs (dns, ips @ [To16 L chk])
      else classify_loop L vs (dns @ [v], ips))"

text \<open>Both slices start as \<open>nil\<close> (lines 84-85).\<close>

definition classify :: "('fs, 't) lib \<Rightarrow> string list \<Rightarrow> string list \<times> IP list" where
  "classify L args = classify_loop L args ([], [])"

text \<open>
  The struct literal of lines 123-143. Go evaluates the three calls of \<open>time.Now()\<close> in
  the order they are written; \<open>n\<close> is the number of clock readings taken before.
  \<open>big.NewInt\<close> turns the \<open>int64\<close> into an integer of the same value.
\<close>

definition csr ::
  "('fs, 't) lib \<Rightarrow> certClusterOptions \<Rightarrow> string list \<Rightarrow> IP list \<Rightarrow> nat \<Rightarrow> 't Certificate"
where
  "csr L opt dns ips n =
     \<lparr> Subject = \<lparr> CommonName = Out_Com opt, Organization = [Out_Org opt] \<rparr>,
       BasicConstraintsValid = True,
       IsCA = False,
       SignatureAlgorithm = SHA512WithRSA,
       PublicKeyAlgorithm = ECDSA,
       NotBefore = Now L n,
       NotAfter = AddDate L (Now L (n + 1)) 10 0 0,
       SerialNumber = UnixNano L (Now L (n + 2)),
       KeyUsage = KeyUsageCertSign OR KeyUsageDigitalSignature OR KeyUsageKeyAgreement
         OR KeyUsageKeyEncipherment OR KeyUsageDataEncipherment OR KeyUsageContentCommitment,
       ExtKeyUsage = [ExtKeyUsageServerAuth, ExtKeyUsageClientAuth],
       DNSNames = dns,
       IPAddresses = ips \<rparr>"

text \<open>
  The body of \<open>RunE\<close>. Every \<open>return\<close> of the source is a branch; taking \<open>.Bytes\<close> of
  the nil block that \<open>pem.Decode\<close> gives for input without a PEM block is Go's nil
  pointer panic (lines 106 and 118).
\<close>

definition nil_deref :: string where
  "nil_deref = ''runtime error: invalid memory address or nil pointer dereference''"

definition RunE ::
  "('fs, 't) lib \<Rightarrow> certClusterOptions \<Rightarrow> string list \<Rightarrow> ('fs, 't) world
     \<Rightarrow> outcome \<times> ('fs, 't) world"
where
  "RunE L opt args w =
    (case classify L args of (dns, ips) \<Rightarrow>
     let w1 = emit (EvReadFile (CA_Crt opt)) w in
     (case ReadFile L (fs w1) (CA_Crt opt) of
       Inl err \<Rightarrow>
         (Returned (Some (Errorf ''Could not read file: %#v'' [StrArg (CA_Crt opt)])), w1)
     | Inr caCrtFile \<Rightarrow>
     (case pem_Decode L caCrtFile of
       None \<Rightarrow> (Panicked nil_deref, w1)
     | Some caCrtData \<Rightarrow>
     (case ParseCertificate L (Bytes caCrtData) of
       Inl err \<Rightarrow>
         (Returned (Some (Errorf ''Could not parse CA certificate: %#v'' [ErrArg err])), w1)
     | Inr caCrt \<Rightarrow>
     let w2 = emit (EvReadFile (CA_Key opt)) w1 in
     (case ReadFile L (fs w2) (CA_Key opt) of
       Inl err \<Rightarrow>
         (Returned (Some (Errorf ''Could not read file: %#v'' [StrArg (CA_Crt opt)])), w2)
     | Inr caKeyFile \<Rightarrow>
     (case pem_Decode L caKeyFile of
       None \<Rightarrow> (Panicked nil_deref, w2)
     | Some caKeyData \<Rightarrow>
     (case ParsePKCS1PrivateKey L (Bytes caKeyData) of
       Inl err \<Rightarrow>
         (Returned (Some (Errorf ''Could not parse CA private key: %#v'' [ErrArg err])), w2)
     | Inr caKey \<Rightarrow>
     let tmpl = csr L opt dns ips (ticks w2);
         w3 = emit (EvGenerateKey (Out_Bit opt)) (w2\<lparr>ticks := ticks w2 + 3\<rparr>) in
     (case GenerateKey L (Out_Bit opt) of
       Inl err \<Rightarrow>
         (Returned (Some (Errorf ''Certificate generation failed: %#v'' [ErrArg err])), w3)
     | Inr key \<Rightarrow>
     let prv = MarshalPKCS1PrivateKey L key;
         w4 = emit (EvCreateCertificate tmpl caCrt (PublicKey key) caKey) w3 in
     (case CreateCertificate L tmpl caCrt (PublicKey key) caKey of
       Inl err \<Rightarrow>
         (Returned (Some (Errorf ''Certificate generation failed: %#v'' [ErrArg err])), w4)
     | Inr pub \<Rightarrow>
     let enc = pem_EncodeToMemory L \<lparr>Type = ''CERTIFICATE'', Headers = [], Bytes = pub\<rparr>;
         w5 = emit (EvLog ''Saving server certificate file into %v...'' [StrArg (Out_Crt opt)]) w4
     in
     (case WriteFile L (fs w5) (Out_Crt opt) enc perm_0644 of (res1, fs1) \<Rightarrow>
     let w6 = emit (EvWriteFile (Out_Crt opt) enc perm_0644 res1) (w5\<lparr>fs := fs1\<rparr>) in
     (case res1 of
       Some err \<Rightarrow>
         (Returned (Some (Errorf ''Unable to write certificate file to %v: %#v''
            [StrArg (Out_Crt opt), ErrArg err])), w6)
     | None \<Rightarrow>
     let enc = pem_EncodeToMemory L \<lparr>Type = ''RSA PRIVATE KEY'', Headers = [], Bytes = prv\<rparr>;
         w7 = emit (EvLog ''Saving server private key file into %v...'' [StrArg (Out_Key opt)]) w6
     in
     (case WriteFile L (fs w7) (Out_Key opt) enc perm_0644 of (res2, fs2) \<Rightarrow>
     let w8 = emit (EvWriteFile (Out_Key opt) enc perm_0644 res2) (w7\<lparr>fs := fs2\<rparr>) in
     (case res2 of
       Some err \<Rightarrow>
         (Returned (Some (Errorf ''Unable to write private key file to %v: %#v''
            [StrArg (Out_Key opt), ErrArg err])), w8)
     | None \<Rightarrow> (Returned None, w8))))))))))))))"

text \<open>
  cobra runs \<open>PreRunE\<close> first and calls \<open>RunE\<close> only when it returned \<open>nil\<close>; an error
  of \<open>PreRunE\<close> is the result of the command.
\<close>

definition execute ::
  "('fs, 't) lib \<Rightarrow> certClusterOptions \<Rightarrow> string list \<Rightarrow> ('fs, 't) world
     \<Rightarrow> outcome \<times> ('fs, 't) world"
where
  "execute L opt args w =
     (case PreRunE opt of
        Some e \<Rightarrow> (Returned (Some e), w)
      | None \<Rightarrow> RunE L opt args w)"

subsection \<open>Reading a run\<close>

text \<open>The events a run added to the trace it started with.\<close>

definition new_events :: "('fs, 't) world \<Rightarrow> ('fs, 't) world \<Rightarrow> 't event list" where
  "new_events w w' = drop (length (trace w)) (trace w')"

text \<open>The file writes among some events, in order: path, data, permission, result.\<close>

fun writes :: "'t event list \<Rightarrow> (string \<times> bytes \<times> nat \<times> lib_error option) list" where
  "writes [] = []"
| "writes (EvWriteFile p d m r # evs) = (p, d, m, r) # writes evs"
| "writes (_ # evs) = writes evs"

text \<open>The key sizes asked of the RSA generator, and the templates handed to the signer.\<close>

fun keygens :: "'t event list \<Rightarrow> int list" where
  "keygens [] = []"
| "keygens (EvGenerateKey b # evs) = b # keygens evs"
| "keygens (_ # evs) = keygens evs"

fun templates :: "'t event list \<Rightarrow> 't Certificate list" where
  "templates [] = []"
| "templates (EvCreateCertificate c _ _ _ # evs) = c # templates evs"
| "templates (_ # evs) = templates evs"

text \<open>Whether a callback ended by returning an error.\<close>

fun is_error :: "outcome \<Rightarrow> bool" where
  "is_error (Returned (Some _)) = True"
| "is_error _ = False"

text \<open>
  Loading one CA file (lines 99-109 for the certificate, 111-121 for the key) has four
  results: the file cannot be read, it holds no PEM block, the block does not parse, or
  the value is there. These two functions name the result, for use in statements; \<open>RunE\<close>
  above does not call them.
\<close>

datatype load_error = Unreadable lib_error | NoPemBlock | Malformed lib_error

definition load_ca_crt ::
  "('fs, 't) lib \<Rightarrow> certClusterOptions \<Rightarrow> 'fs \<Rightarrow> load_error + 't Certificate"
where
  "load_ca_crt L opt d =
     (case ReadFile L d (CA_Crt opt) of
        Inl e \<Rightarrow> Inl (Unreadable e)
      | Inr file \<Rightarrow>
          (case pem_Decode L file of
             None \<Rightarrow> Inl NoPemBlock
           | Some b \<Rightarrow>
               (case ParseCertificate L (Bytes b) of
                  Inl e \<Rightarrow> Inl (Malformed e)
                | Inr c \<Rightarrow> Inr c)))"

definition load_ca_key ::
  "('fs, 't) lib \<Rightarrow> certClusterOptions \<Rightarrow> 'fs \<Rightarrow> load_error + rsa_PrivateKey"
where
  "load_ca_key L opt d =
     (case ReadFile L d (CA_Key opt) of
        Inl e \<Rightarrow> Inl (Unreadable e)
      | Inr file \<Rightarrow>
          (case pem_Decode L file of
             None \<Rightarrow> Inl NoPemBlock
           | Some b \<Rightarrow>
               (case ParsePKCS1PrivateKey L (Bytes b) of
                  Inl e \<Rightarrow> Inl (Malformed e)
                | Inr k \<Rightarrow> Inr k)))"

section \<open>A concrete environment\<close>

text \<open>
  To run the model on inputs, every collaborator needs an implementation. The ones below
  are small stand-ins with the interface of the real ones; the general theorems do not
  depend on them.
\<close>

subsection \<open>\<open>net.IP.To4\<close> and \<open>net.IP.To16\<close>\<close>

definition v4InV6Prefix :: bytes where
  "v4InV6Prefix = [0, 0, 0, 0, 0, 0, 0, 0, 0, 0, 255, 255]"

definition ip_To4 :: "IP \<Rightarrow> IP" where
  "ip_To4 ip =
     (case ip of
        None \<Rightarrow> None
      | Some b \<Rightarrow>
          if length b = 4 then Some b
          else if length b = 16 \<and> take 12 b = v4InV6Prefix then Some (drop 12 b)
          else None)"

definition ip_To16 :: "IP \<Rightarrow> IP" where
  "ip_To16 ip =
     (case ip of
        None \<Rightarrow> None
      | Some b \<Rightarrow>
          if length b = 4 then Some (v4InV6Prefix @ b)
          else if length b = 16 then Some b
          else None)"

text \<open>
  A parser that knows four literals and answers as \<open>net.ParseIP\<close> does for them (always
  in the 16-byte form); every other string is no address.
\<close>

definition table_ParseIP :: "string \<Rightarrow> IP" where
  "table_ParseIP s =
     (if s = ''10.0.0.5'' then Some (v4InV6Prefix @ [10, 0, 0, 5])
      else if s = ''::ffff:10.0.0.5'' then Some (v4InV6Prefix @ [10, 0, 0, 5])
      else if s = ''::1'' then Some [0, 0, 0, 0, 0, 0, 0, 0, 0, 0, 0, 0, 0, 0, 0, 1]
      else if s = ''fe80::1'' then Some [254, 128, 0, 0, 0, 0, 0, 0, 0, 0, 0, 0, 0, 0, 0, 1]
      else None)"

subsection \<open>A clock in UTC\<close>

text \<open>
  Time as nanoseconds since the Unix epoch, read in UTC. \<open>utc_AddDate\<close> follows
  \<open>Time.AddDate\<close>: split the instant into civil date and time of day, add to the date
  fields, and let \<open>Date\<close> normalise months and days that overflow.
\<close>

definition days_from_civil :: "int \<Rightarrow> int \<Rightarrow> int \<Rightarrow> int" where
  "days_from_civil y m d =
     (let y' = (if m \<le> 2 then y - 1 else y);
          era = y' div 400;
          yoe = y' - era * 400;
          doy = (153 * (if m > 2 then m - 3 else m + 9) + 2) div 5 + d - 1;
          doe = yoe * 365 + yoe div 4 - yoe div 100 + doy
      in era * 146097 + doe - 719468)"

definition civil_from_days :: "int \<Rightarrow> int \<times> int \<times> int" where
  "civil_from_days z =
     (let z' = z + 719468;
          era = z' div 146097;
          doe = z' - era * 146097;
          yoe = (doe - doe div 1460 + doe div 36524 - doe div 146096) div 365;
          doy = doe - (365 * yoe + yoe div 4 - yoe div 100);
          mp = (5 * doy + 2) div 153;
          d = doy - (153 * mp + 2) div 5 + 1;
          m = (if mp < 10 then mp + 3 else mp - 9)
      in ((if m \<le> 2 then yoe + era * 400 + 1 else yoe + era * 400), m, d))"

definition ns_per_day :: int where
  "ns_per_day = 86400 * 1000000000"

definition utc_Date :: "int \<Rightarrow> int \<Rightarrow> int \<Rightarrow> int \<Rightarrow> int" where
  "utc_Date y m d ns_of_day =
     (let m0 = m - 1;
          y' = y + m0 div 12;
          m' = m0 mod 12 + 1
      in (days_from_civil y' m' 1 + (d - 1)) * ns_per_day + ns_of_day)"

definition utc_AddDate :: "int \<Rightarrow> int \<Rightarrow> int \<Rightarrow> int \<Rightarrow> int" where
  "utc_AddDate t years months days =
     (case civil_from_days (t div ns_per_day) of
        (y, m, d) \<Rightarrow> utc_Date (y + years) (m + months) (d + days) (t mod ns_per_day))"

subsection \<open>A disk\<close>

text \<open>
  Files as an association list from path to content and mode, the newest entry first.
  Reading fails for a path that has no file. Writing fails, and changes nothing, for a
  path in the list \<open>ro\<close>; otherwise it replaces the content, keeps the mode of a file
  that exists and gives a new file the mode asked for.
\<close>

type_synonym disk = "(string \<times> bytes \<times> nat) list"

definition disk_ReadFile :: "disk \<Rightarrow> string \<Rightarrow> lib_error + bytes" where
  "disk_ReadFile d p =
     (case map_of d p of
        None \<Rightarrow> Inl (LibError ''no such file or directory'')
      | Some (c, m) \<Rightarrow> Inr c)"

definition disk_WriteFile ::
  "string list \<Rightarrow> disk \<Rightarrow> string \<Rightarrow> bytes \<Rightarrow> nat \<Rightarrow> lib_error option \<times> disk"
where
  "disk_WriteFile ro d p c perm =
     (if p \<in> set ro then (Some (LibError ''permission denied''), d)
      else (None, (p, c, (case map_of d p of None \<Rightarrow> perm | Some (_, m) \<Rightarrow> m)) # d))"

subsection \<open>Codecs and keys\<close>

text \<open>
  A one-byte envelope in place of PEM: tag 1 for \<open>CERTIFICATE\<close>, tag 2 for
  \<open>RSA PRIVATE KEY\<close>; anything else holds no block.
\<close>

definition tag_Decode :: "bytes \<Rightarrow> pem_Block option" where
  "tag_Decode bs =
     (case bs of
        [] \<Rightarrow> None
      | t # rest \<Rightarrow>
          if t = 1 then Some \<lparr>Type = ''CERTIFICATE'', Headers = [], Bytes = rest\<rparr>
          else if t = 2 then Some \<lparr>Type = ''RSA PRIVATE KEY'', Headers = [], Bytes = rest\<rparr>
          else None)"

definition tag_EncodeToMemory :: "pem_Block \<Rightarrow> bytes" where
  "tag_EncodeToMemory b =
     (if Type b = ''CERTIFICATE'' then 1 else if Type b = ''RSA PRIVATE KEY'' then 2 else 0)
       # Bytes b"

definition ca_key :: rsa_PrivateKey where
  "ca_key = \<lparr>PublicKey = \<lparr>rsa_N = 3233, rsa_E = 17\<rparr>, rsa_D = 2753, rsa_Primes = [61, 53]\<rparr>"

definition node_key :: rsa_PrivateKey where
  "node_key = \<lparr>PublicKey = \<lparr>rsa_N = 2773, rsa_E = 17\<rparr>, rsa_D = 157, rsa_Primes = [47, 59]\<rparr>"

definition ca_crt :: "int Certificate" where
  "ca_crt =
     \<lparr> Subject = \<lparr>CommonName = ''ca'', Organization = [''Acme'']\<rparr>,
       BasicConstraintsValid = True, IsCA = True,
       SignatureAlgorithm = SHA512WithRSA, PublicKeyAlgorithm = RSA,
       NotBefore = 0, NotAfter = 4102444800000000000, SerialNumber = 1,
       KeyUsage = KeyUsageCertSign, ExtKeyUsage = [], DNSNames = [], IPAddresses = [] \<rparr>"

text \<open>
  The library of the examples: the CA files hold one known byte string each, the key
  generator refuses sizes below 2 bits, the signer returns three bytes, and the clock
  starts on 2016-11-01 12:00:00 UTC and advances 100 ns between readings.
\<close>

definition example_lib :: "string list \<Rightarrow> (disk, int) lib" where
  "example_lib ro =
     \<lparr> ParseIP = table_ParseIP,
       To4 = ip_To4,
       To16 = ip_To16,
       ReadFile = disk_ReadFile,
       WriteFile = disk_WriteFile ro,
       pem_Decode = tag_Decode,
       pem_EncodeToMemory = tag_EncodeToMemory,
       ParseCertificate =
         (\<lambda>der. if der = [48, 130] then Inr ca_crt else Inl (LibError ''malformed certificate'')),
       ParsePKCS1PrivateKey =
         (\<lambda>der. if der = [48, 129] then Inr ca_key else Inl (LibError ''malformed key'')),
       MarshalPKCS1PrivateKey = (\<lambda>k. [48, 129, of_int (rsa_D k)]),
       GenerateKey =
         (\<lambda>bits. if bits < 2 then Inl (LibError ''too few bits'') else Inr node_key),
       CreateCertificate = (\<lambda>tmpl parent pub priv. Inr [48, 130, 7]),
       Now = (\<lambda>n. 1478001600000000000 + 100 * int n),
       AddDate = utc_AddDate,
       UnixNano = (\<lambda>t. t) \<rparr>"

definition example_opt :: certClusterOptions where
  "example_opt =
     \<lparr> CA_Crt = ''ca.crt'', CA_Key = ''ca.key'', Out_Bit = 2048, Out_Com = ''node1'',
       Out_Org = ''Acme'', Out_Crt = ''n.crt'', Out_Key = ''n.key'' \<rparr>"

definition example_disk :: disk where
  "example_disk = [(''ca.crt'', [1, 48, 130], 420), (''ca.key'', [2, 48, 129], 384)]"

definition example_world :: "disk \<Rightarrow> (disk, int) world" where
  "example_world d = \<lparr> fs = d, ticks = 0, trace = [] \<rparr>"

section \<open>Properties\<close>

subsection \<open>Auxiliary facts\<close>

lemma fs_emit [simp]: "fs (emit ev w) = fs w"
  by (simp add: emit_def)

lemma ticks_emit [simp]: "ticks (emit ev w) = ticks w"
  by (simp add: emit_def)

lemma trace_emit [simp]: "trace (emit ev w) = trace w @ [ev]"
  by (simp add: emit_def)

lemma writes_append [simp]: "writes (xs @ ys) = writes xs @ writes ys"
  by (induction xs rule: writes.induct) simp_all

lemma keygens_append [simp]: "keygens (xs @ ys) = keygens xs @ keygens ys"
  by (induction xs rule: keygens.induct) simp_all

lemma templates_append [simp]: "templates (xs @ ys) = templates xs @ templates ys"
  by (induction xs rule: templates.induct) simp_all

lemma new_events_append: "trace w' = trace w @ evs \<Longrightarrow> new_events w w' = evs"
  by (simp add: new_events_def)

lemma classify_loop_acc:
  "classify_loop L args (dns, ips) =
     (dns @ filter (\<lambda>v. To4 L (ParseIP L v) = None \<and> To16 L (ParseIP L v) = None) args,
      ips @ map (\<lambda>v. if To4 L (ParseIP L v) \<noteq> None then To4 L (ParseIP L v)
                      else To16 L (ParseIP L v))
              (filter (\<lambda>v. \<not> (To4 L (ParseIP L v) = None \<and> To16 L (ParseIP L v) = None)) args))"
  by (induction args arbitrary: dns ips) (auto simp: Let_def)

lemma load_ca_crt_iff:
  "load_ca_crt L opt d = Inl (Unreadable e) \<longleftrightarrow> ReadFile L d (CA_Crt opt) = Inl e"
  "load_ca_crt L opt d = Inl NoPemBlock \<longleftrightarrow>
     (\<exists>file. ReadFile L d (CA_Crt opt) = Inr file \<and> pem_Decode L file = None)"
  "load_ca_crt L opt d = Inl (Malformed e) \<longleftrightarrow>
     (\<exists>file b. ReadFile L d (CA_Crt opt) = Inr file \<and> pem_Decode L file = Some b
        \<and> ParseCertificate L (Bytes b) = Inl e)"
  "load_ca_crt L opt d = Inr c \<longleftrightarrow>
     (\<exists>file b. ReadFile L d (CA_Crt opt) = Inr file \<and> pem_Decode L file = Some b
        \<and> ParseCertificate L (Bytes b) = Inr c)"
  by (auto simp: load_ca_crt_def split: sum.splits option.splits)

lemma load_ca_key_iff:
  "load_ca_key L opt d = Inl (Unreadable e) \<longleftrightarrow> ReadFile L d (CA_Key opt) = Inl e"
  "load_ca_key L opt d = Inl NoPemBlock \<longleftrightarrow>
     (\<exists>file. ReadFile L d (CA_Key opt) = Inr file \<and> pem_Decode L file = None)"
  "load_ca_key L opt d = Inl (Malformed e) \<longleftrightarrow>
     (\<exists>file b. ReadFile L d (CA_Key opt) = Inr file \<and> pem_Decode L file = Some b
        \<and> ParsePKCS1PrivateKey L (Bytes b) = Inl e)"
  "load_ca_key L opt d = Inr k \<longleftrightarrow>
     (\<exists>file b. ReadFile L d (CA_Key opt) = Inr file \<and> pem_Decode L file = Some b
        \<and> ParsePKCS1PrivateKey L (Bytes b) = Inr k)"
  by (auto simp: load_ca_key_def split: sum.splits option.splits)

lemma RunE_crt_unreadable:
  assumes "load_ca_crt L opt (fs w) = Inl (Unreadable e)"
  shows "RunE L opt args w =
    (Returned (Some (Errorf ''Could not read file: %#v'' [StrArg (CA_Crt opt)])),
     emit (EvReadFile (CA_Crt opt)) w)"
  using assms
  by (auto simp: load_ca_crt_iff load_ca_key_iff RunE_def emit_def Let_def split_beta)

lemma RunE_crt_no_pem:
  assumes "load_ca_crt L opt (fs w) = Inl NoPemBlock"
  shows "RunE L opt args w = (Panicked nil_deref, emit (EvReadFile (CA_Crt opt)) w)"
  using assms
  by (auto simp: load_ca_crt_iff load_ca_key_iff RunE_def emit_def Let_def split_beta)

lemma RunE_crt_malformed:
  assumes "load_ca_crt L opt (fs w) = Inl (Malformed e)"
  shows "RunE L opt args w =
    (Returned (Some (Errorf ''Could not parse CA certificate: %#v'' [ErrArg e])),
     emit (EvReadFile (CA_Crt opt)) w)"
  using assms
  by (auto simp: load_ca_crt_iff load_ca_key_iff RunE_def emit_def Let_def split_beta)

lemma RunE_key_unreadable:
  assumes "load_ca_crt L opt (fs w) = Inr caCrt" "load_ca_key L opt (fs w) = Inl (Unreadable e)"
  shows "RunE L opt args w =
    (Returned (Some (Errorf ''Could not read file: %#v'' [StrArg (CA_Crt opt)])),
     emit (EvReadFile (CA_Key opt)) (emit (EvReadFile (CA_Crt opt)) w))"
  using assms
  by (auto simp: load_ca_crt_iff load_ca_key_iff RunE_def emit_def Let_def split_beta)


lemma RunE_key_no_pem:
  assumes "load_ca_crt L opt (fs w) = Inr caCrt" "load_ca_key L opt (fs w) = Inl NoPemBlock"
  shows "RunE L opt args w =
    (Panicked nil_deref, emit (EvReadFile (CA_Key opt)) (emit (EvReadFile (CA_Crt opt)) w))"
  using assms
  by (auto simp: load_ca_crt_iff load_ca_key_iff RunE_def emit_def Let_def split_beta)

lemma RunE_key_malformed:
  assumes "load_ca_crt L opt (fs w) = Inr caCrt" "load_ca_key L opt (fs w) = Inl (Malformed e)"
  shows "RunE L opt args w =
    (Returned (Some (Errorf ''Could not parse CA private key: %#v'' [ErrArg e])),
     emit (EvReadFile (CA_Key opt)) (emit (EvReadFile (CA_Crt opt)) w))"
  using assms
  by (auto simp: load_ca_crt_iff load_ca_key_iff RunE_def emit_def Let_def split_beta)

lemma RunE_keygen_failed:
  assumes "load_ca_crt L opt (fs w) = Inr caCrt" "load_ca_key L opt (fs w) = Inr caKey"
    and "GenerateKey L (Out_Bit opt) = Inl e"
  shows "RunE L opt args w =
    (Returned (Some (Errorf ''Certificate generation failed: %#v'' [ErrArg e])),
     w\<lparr>ticks := ticks w + 3,
       trace := trace w @ [EvReadFile (CA_Crt opt), EvReadFile (CA_Key opt),
         EvGenerateKey (Out_Bit opt)]\<rparr>)"
  using assms
  by (auto simp: load_ca_crt_iff load_ca_key_iff RunE_def emit_def Let_def split_beta)

lemma RunE_signing_failed:
  assumes "load_ca_crt L opt (fs w) = Inr caCrt" "load_ca_key L opt (fs w) = Inr caKey"
    and "GenerateKey L (Out_Bit opt) = Inr key"
    and "tmpl = csr L opt (fst (classify L args)) (snd (classify L args)) (ticks w)"
    and "CreateCertificate L tmpl caCrt (PublicKey key) caKey = Inl e"
  shows "RunE L opt args w =
    (Returned (Some (Errorf ''Certificate generation failed: %#v'' [ErrArg e])),
     w\<lparr>ticks := ticks w + 3,
       trace := trace w @ [EvReadFile (CA_Crt opt), EvReadFile (CA_Key opt),
         EvGenerateKey (Out_Bit opt), EvCreateCertificate tmpl caCrt (PublicKey key) caKey]\<rparr>)"
  using assms
  by (auto simp: load_ca_crt_iff load_ca_key_iff RunE_def emit_def Let_def split_beta)

lemma RunE_crt_write_failed:
  assumes "load_ca_crt L opt (fs w) = Inr caCrt" "load_ca_key L opt (fs w) = Inr caKey"
    and "GenerateKey L (Out_Bit opt) = Inr key"
    and "tmpl = csr L opt (fst (classify L args)) (snd (classify L args)) (ticks w)"
    and "CreateCertificate L tmpl caCrt (PublicKey key) caKey = Inr pub"
    and "enc1 = pem_EncodeToMemory L \<lparr>Type = ''CERTIFICATE'', Headers = [], Bytes = pub\<rparr>"
    and "WriteFile L (fs w) (Out_Crt opt) enc1 perm_0644 = (Some e, d1)"
  shows "RunE L opt args w =
    (Returned (Some (Errorf ''Unable to write certificate file to %v: %#v''
       [StrArg (Out_Crt opt), ErrArg e])),
     w\<lparr>fs := d1, ticks := ticks w + 3,
       trace := trace w @ [EvReadFile (CA_Crt opt), EvReadFile (CA_Key opt),
         EvGenerateKey (Out_Bit opt), EvCreateCertificate tmpl caCrt (PublicKey key) caKey,
         EvLog ''Saving server certificate file into %v...'' [StrArg (Out_Crt opt)],
         EvWriteFile (Out_Crt opt) enc1 perm_0644 (Some e)]\<rparr>)"
  using assms
  by (auto simp: load_ca_crt_iff load_ca_key_iff RunE_def emit_def Let_def split_beta)

lemma RunE_both_written:
  assumes "load_ca_crt L opt (fs w) = Inr caCrt" "load_ca_key L opt (fs w) = Inr caKey"
    and "GenerateKey L (Out_Bit opt) = Inr key"
    and "tmpl = csr L opt (fst (classify L args)) (snd (classify L args)) (ticks w)"
    and "CreateCertificate L tmpl caCrt (PublicKey key) caKey = Inr pub"
    and "enc1 = pem_EncodeToMemory L \<lparr>Type = ''CERTIFICATE'', Headers = [], Bytes = pub\<rparr>"
    and "WriteFile L (fs w) (Out_Crt opt) enc1 perm_0644 = (None, d1)"
    and "enc2 = pem_EncodeToMemory L
           \<lparr>Type = ''RSA PRIVATE KEY'', Headers = [], Bytes = MarshalPKCS1PrivateKey L key\<rparr>"
    and "WriteFile L d1 (Out_Key opt) enc2 perm_0644 = (res, d2)"
  shows "RunE L opt args w =
    ((case res of
        Some e \<Rightarrow> Returned (Some (Errorf ''Unable to write private key file to %v: %#v''
          [StrArg (Out_Key opt), ErrArg e]))
      | None \<Rightarrow> Returned None),
     w\<lparr>fs := d2, ticks := ticks w + 3,
       trace := trace w @ [EvReadFile (CA_Crt opt), EvReadFile (CA_Key opt),
         EvGenerateKey (Out_Bit opt), EvCreateCertificate tmpl caCrt (PublicKey key) caKey,
         EvLog ''Saving server certificate file into %v...'' [StrArg (Out_Crt opt)],
         EvWriteFile (Out_Crt opt) enc1 perm_0644 None,
         EvLog ''Saving server private key file into %v...'' [StrArg (Out_Key opt)],
         EvWriteFile (Out_Key opt) enc2 perm_0644 res]\<rparr>)"
  using assms
  by (auto simp: load_ca_crt_iff load_ca_key_iff RunE_def emit_def Let_def split_beta
      split: option.splits)

text \<open>
  Every run leaves \<open>RunE\<close> through exactly one of ten exits; each case gives what the
  collaborators answered and the result of the run.
\<close>

lemma RunE_exits [case_names crt_unreadable crt_no_pem crt_malformed key_unreadable
    key_no_pem key_malformed keygen_failed signing_failed crt_write_failed both_written]:
  fixes L :: "('fs, 't) lib"
  obtains
    e where "load_ca_crt L opt (fs w) = Inl (Unreadable e)"
      "RunE L opt args w =
        (Returned (Some (Errorf ''Could not read file: %#v'' [StrArg (CA_Crt opt)])),
         emit (EvReadFile (CA_Crt opt)) w)"
  | "load_ca_crt L opt (fs w) = Inl NoPemBlock"
      "RunE L opt args w = (Panicked nil_deref, emit (EvReadFile (CA_Crt opt)) w)"
  | e where "load_ca_crt L opt (fs w) = Inl (Malformed e)"
      "RunE L opt args w =
        (Returned (Some (Errorf ''Could not parse CA certificate: %#v'' [ErrArg e])),
         emit (EvReadFile (CA_Crt opt)) w)"
  | caCrt e where "load_ca_crt L opt (fs w) = Inr caCrt"
      "load_ca_key L opt (fs w) = Inl (Unreadable e)"
      "RunE L opt args w =
        (Returned (Some (Errorf ''Could not read file: %#v'' [StrArg (CA_Crt opt)])),
         emit (EvReadFile (CA_Key opt)) (emit (EvReadFile (CA_Crt opt)) w))"
  | caCrt where "load_ca_crt L opt (fs w) = Inr caCrt"
      "load_ca_key L opt (fs w) = Inl NoPemBlock"
      "RunE L opt args w =
        (Panicked nil_deref, emit (EvReadFile (CA_Key opt)) (emit (EvReadFile (CA_Crt opt)) w))"
  | caCrt e where "load_ca_crt L opt (fs w) = Inr caCrt"
      "load_ca_key L opt (fs w) = Inl (Malformed e)"
      "RunE L opt args w =
        (Returned (Some (Errorf ''Could not parse CA private key: %#v'' [ErrArg e])),
         emit (EvReadFile (CA_Key opt)) (emit (EvReadFile (CA_Crt opt)) w))"
  | caCrt caKey e where "load_ca_crt L opt (fs w) = Inr caCrt"
      "load_ca_key L opt (fs w) = Inr caKey"
      "GenerateKey L (Out_Bit opt) = Inl e"
      "RunE L opt args w =
        (Returned (Some (Errorf ''Certificate generation failed: %#v'' [ErrArg e])),
         w\<lparr>ticks := ticks w + 3,
           trace := trace w @ [EvReadFile (CA_Crt opt), EvReadFile (CA_Key opt),
             EvGenerateKey (Out_Bit opt)]\<rparr>)"
  | caCrt caKey key tmpl e where "load_ca_crt L opt (fs w) = Inr caCrt"
      "load_ca_key L opt (fs w) = Inr caKey"
      "GenerateKey L (Out_Bit opt) = Inr key"
      "tmpl = csr L opt (fst (classify L args)) (snd (classify L args)) (ticks w)"
      "CreateCertificate L tmpl caCrt (PublicKey key) caKey = Inl e"
      "RunE L opt args w =
        (Returned (Some (Errorf ''Certificate generation failed: %#v'' [ErrArg e])),
         w\<lparr>ticks := ticks w + 3,
           trace := trace w @ [EvReadFile (CA_Crt opt), EvReadFile (CA_Key opt),
             EvGenerateKey (Out_Bit opt),
             EvCreateCertificate tmpl caCrt (PublicKey key) caKey]\<rparr>)"
  | caCrt caKey key tmpl pub enc1 e d1 where "load_ca_crt L opt (fs w) = Inr caCrt"
      "load_ca_key L opt (fs w) = Inr caKey"
      "GenerateKey L (Out_Bit opt) = Inr key"
      "tmpl = csr L opt (fst (classify L args)) (snd (classify L args)) (ticks w)"
      "CreateCertificate L tmpl caCrt (PublicKey key) caKey = Inr pub"
      "enc1 = pem_EncodeToMemory L \<lparr>Type = ''CERTIFICATE'', Headers = [], Bytes = pub\<rparr>"
      "WriteFile L (fs w) (Out_Crt opt) enc1 perm_0644 = (Some e, d1)"
      "RunE L opt args w =
        (Returned (Some (Errorf ''Unable to write certificate file to %v: %#v''
           [StrArg (Out_Crt opt), ErrArg e])),
         w\<lparr>fs := d1, ticks := ticks w + 3,
           trace := trace w @ [EvReadFile (CA_Crt opt), EvReadFile (CA_Key opt),
             EvGenerateKey (Out_Bit opt), EvCreateCertificate tmpl caCrt (PublicKey key) caKey,
             EvLog ''Saving server certificate file into %v...'' [StrArg (Out_Crt opt)],
             EvWriteFile (Out_Crt opt) enc1 perm_0644 (Some e)]\<rparr>)"
  | caCrt caKey key tmpl pub enc1 d1 enc2 res d2 where "load_ca_crt L opt (fs w) = Inr caCrt"
      "load_ca_key L opt (fs w) = Inr caKey"
      "GenerateKey L (Out_Bit opt) = Inr key"
      "tmpl = csr L opt (fst (classify L args)) (snd (classify L args)) (ticks w)"
      "CreateCertificate L tmpl caCrt (PublicKey key) caKey = Inr pub"
      "enc1 = pem_EncodeToMemory L \<lparr>Type = ''CERTIFICATE'', Headers = [], Bytes = pub\<rparr>"
      "WriteFile L (fs w) (Out_Crt opt) enc1 perm_0644 = (None, d1)"
      "enc2 = pem_EncodeToMemory L
         \<lparr>Type = ''RSA PRIVATE KEY'', Headers = [], Bytes = MarshalPKCS1PrivateKey L key\<rparr>"
      "WriteFile L d1 (Out_Key opt) enc2 perm_0644 = (res, d2)"
      "RunE L opt args w =
        ((case res of
            Some e \<Rightarrow> Returned (Some (Errorf ''Unable to write private key file to %v: %#v''
              [StrArg (Out_Key opt), ErrArg e]))
          | None \<Rightarrow> Returned None),
         w\<lparr>fs := d2, ticks := ticks w + 3,
           trace := trace w @ [EvReadFile (CA_Crt opt), EvReadFile (CA_Key opt),
             EvGenerateKey (Out_Bit opt), EvCreateCertificate tmpl caCrt (PublicKey key) caKey,
             EvLog ''Saving server certificate file into %v...'' [StrArg (Out_Crt opt)],
             EvWriteFile (Out_Crt opt) enc1 perm_0644 None,
             EvLog ''Saving server private key file into %v...'' [StrArg (Out_Key opt)],
             EvWriteFile (Out_Key opt) enc2 perm_0644 res]\<rparr>)"
proof (cases "load_ca_crt L opt (fs w)")
  case (Inl le)
  show ?thesis
  proof (cases le)
    case (Unreadable e)
    with Inl have l: "load_ca_crt L opt (fs w) = Inl (Unreadable e)" by simp
    show ?thesis by (rule that(1) [OF l RunE_crt_unreadable [OF l]])
  next
    case NoPemBlock
    with Inl have l: "load_ca_crt L opt (fs w) = Inl NoPemBlock" by simp
    show ?thesis by (rule that(2) [OF l RunE_crt_no_pem [OF l]])
  next
    case (Malformed e)
    with Inl have l: "load_ca_crt L opt (fs w) = Inl (Malformed e)" by simp
    show ?thesis by (rule that(3) [OF l RunE_crt_malformed [OF l]])
  qed
next
  case crt: (Inr caCrt)
  show ?thesis
  proof (cases "load_ca_key L opt (fs w)")
    case (Inl le)
    show ?thesis
    proof (cases le)
      case (Unreadable e)
      with Inl have l: "load_ca_key L opt (fs w) = Inl (Unreadable e)" by simp
      show ?thesis by (rule that(4) [OF crt l RunE_key_unreadable [OF crt l]])
    next
      case NoPemBlock
      with Inl have l: "load_ca_key L opt (fs w) = Inl NoPemBlock" by simp
      show ?thesis by (rule that(5) [OF crt l RunE_key_no_pem [OF crt l]])
    next
      case (Malformed e)
      with Inl have l: "load_ca_key L opt (fs w) = Inl (Malformed e)" by simp
      show ?thesis by (rule that(6) [OF crt l RunE_key_malformed [OF crt l]])
    qed
  next
    case key: (Inr caKey)
    show ?thesis
    proof (cases "GenerateKey L (Out_Bit opt)")
      case (Inl e)
      show ?thesis by (rule that(7) [OF crt key Inl RunE_keygen_failed [OF crt key Inl]])
    next
      case gen: (Inr k)
      define tmpl where "tmpl = csr L opt (fst (classify L args)) (snd (classify L args)) (ticks w)"
      show ?thesis
      proof (cases "CreateCertificate L tmpl caCrt (PublicKey k) caKey")
        case (Inl e)
        show ?thesis
          by (rule that(8) [OF crt key gen tmpl_def Inl
                RunE_signing_failed [OF crt key gen tmpl_def Inl]])
      next
        case sign: (Inr pub)
        define enc1 where
          "enc1 = pem_EncodeToMemory L \<lparr>Type = ''CERTIFICATE'', Headers = [], Bytes = pub\<rparr>"
        obtain res1 d1 where w1: "WriteFile L (fs w) (Out_Crt opt) enc1 perm_0644 = (res1, d1)"
          by (cases "WriteFile L (fs w) (Out_Crt opt) enc1 perm_0644")
        show ?thesis
        proof (cases res1)
          case (Some e)
          with w1 have w1': "WriteFile L (fs w) (Out_Crt opt) enc1 perm_0644 = (Some e, d1)"
            by simp
          show ?thesis
            by (rule that(9) [OF crt key gen tmpl_def sign enc1_def w1'
                  RunE_crt_write_failed [OF crt key gen tmpl_def sign enc1_def w1']])
        next
          case None
          with w1 have w1': "WriteFile L (fs w) (Out_Crt opt) enc1 perm_0644 = (None, d1)"
            by simp
          define enc2 where "enc2 = pem_EncodeToMemory L
            \<lparr>Type = ''RSA PRIVATE KEY'', Headers = [], Bytes = MarshalPKCS1PrivateKey L k\<rparr>"
          obtain res d2 where w2: "WriteFile L d1 (Out_Key opt) enc2 perm_0644 = (res, d2)"
            by (cases "WriteFile L d1 (Out_Key opt) enc2 perm_0644")
          show ?thesis
            by (rule that(10) [OF crt key gen tmpl_def sign enc1_def w1' enc2_def w2
                  RunE_both_written [OF crt key gen tmpl_def sign enc1_def w1' enc2_def w2]])
        qed
      qed
    qed
  qed
qed

text \<open>The example library and world, field by field, and one complete run.\<close>

lemma example_lib_sel:
  "ParseIP (example_lib ro) = table_ParseIP"
  "To4 (example_lib ro) = ip_To4"
  "To16 (example_lib ro) = ip_To16"
  "ReadFile (example_lib ro) = disk_ReadFile"
  "WriteFile (example_lib ro) = disk_WriteFile ro"
  "pem_Decode (example_lib ro) = tag_Decode"
  "pem_EncodeToMemory (example_lib ro) = tag_EncodeToMemory"
  "ParseCertificate (example_lib ro) der =
     (if der = [48, 130] then Inr ca_crt else Inl (LibError ''malformed certificate''))"
  "ParsePKCS1PrivateKey (example_lib ro) der =
     (if der = [48, 129] then Inr ca_key else Inl (LibError ''malformed key''))"
  "MarshalPKCS1PrivateKey (example_lib ro) k = [48, 129, of_int (rsa_D k)]"
  "GenerateKey (example_lib ro) bits =
     (if bits < 2 then Inl (LibError ''too few bits'') else Inr node_key)"
  "CreateCertificate (example_lib ro) tmpl parent pub priv = Inr [48, 130, 7]"
  "Now (example_lib ro) n = 1478001600000000000 + 100 * int n"
  "AddDate (example_lib ro) = utc_AddDate"
  "UnixNano (example_lib ro) t = t"
  by (simp_all add: example_lib_def)

lemma example_world_sel:
  "fs (example_world d) = d"
  "ticks (example_world d) = 0"
  "trace (example_world d) = []"
  by (simp_all add: example_world_def)

lemma example_run_ok:
  "RunE (example_lib []) example_opt [] (example_world example_disk) =
    (Returned None,
     \<lparr> fs = [(''n.key'', [2, 48, 129, 157], 420), (''n.crt'', [1, 48, 130, 7], 420),
              (''ca.crt'', [1, 48, 130], 420), (''ca.key'', [2, 48, 129], 384)],
       ticks = 3,
       trace = [EvReadFile ''ca.crt'', EvReadFile ''ca.key'', EvGenerateKey 2048,
         EvCreateCertificate (csr (example_lib []) example_opt [] [] 0) ca_crt
           (PublicKey node_key) ca_key,
         EvLog ''Saving server certificate file into %v...'' [StrArg ''n.crt''],
         EvWriteFile ''n.crt'' [1, 48, 130, 7] 420 None,
         EvLog ''Saving server private key file into %v...'' [StrArg ''n.key''],
         EvWriteFile ''n.key'' [2, 48, 129, 157] 420 None] \<rparr>)"
  by (simp add: RunE_def example_lib_def example_opt_def example_world_def example_disk_def
      classify_def emit_def disk_ReadFile_def disk_WriteFile_def tag_Decode_def
      tag_EncodeToMemory_def perm_0644_def Let_def node_key_def)

text \<open>Ten years after the first two readings of the example clock.\<close>

lemma AddDate_first_reading: "utc_AddDate 1478001600000000000 10 0 0 = 1793534400000000000"
  by code_simp

lemma AddDate_second_reading: "utc_AddDate 1478001600000000100 10 0 0 = 1793534400000000100"
  by code_simp

lemmas example_load_defs = load_ca_crt_def load_ca_key_def example_lib_sel example_world_sel
  example_opt_def example_disk_def disk_ReadFile_def disk_WriteFile_def tag_Decode_def
  tag_EncodeToMemory_def

lemmas example_defs = example_lib_def example_opt_def example_world_def example_disk_def
  classify_def emit_def disk_ReadFile_def disk_WriteFile_def tag_Decode_def
  tag_EncodeToMemory_def perm_0644_def table_ParseIP_def ip_To4_def ip_To16_def
  v4InV6Prefix_def Let_def new_events_def ca_crt_def ca_key_def node_key_def

subsection \<open>The classifier of host identifiers\<close>

text \<open>
  C1. For every list of positional arguments the loop splits it in two. A string whose
  parsed address has a 4-byte form goes to the IP list as that 4-byte value; otherwise a
  string whose parsed address has a 16-byte form goes to the IP list as that 16-byte
  value; every other string goes to the DNS list unchanged. Both lists keep the order of
  the input and nothing is deduplicated: the DNS list is the input filtered, the IP list
  is the remaining input mapped. No arguments give two empty lists.
\<close>

theorem classify_partition:
  "classify L args =
     (filter (\<lambda>v. To4 L (ParseIP L v) = None \<and> To16 L (ParseIP L v) = None) args,
      map (\<lambda>v. if To4 L (ParseIP L v) \<noteq> None then To4 L (ParseIP L v)
                 else To16 L (ParseIP L v))
        (filter (\<lambda>v. \<not> (To4 L (ParseIP L v) = None \<and> To16 L (ParseIP L v) = None)) args))
   \<and> classify L [] = ([], [])"
  by (simp add: classify_def classify_loop_acc)

theorem classify_partition_witness:
  "classify (example_lib [])
     [''10.0.0.5'', ''node1.cluster.local'', ''::1'', ''not a host!'', ''node1.cluster.local'',
      ''::ffff:10.0.0.5'']
   = ([''node1.cluster.local'', ''not a host!'', ''node1.cluster.local''],
      [Some [10, 0, 0, 5], Some [0, 0, 0, 0, 0, 0, 0, 0, 0, 0, 0, 0, 0, 0, 0, 1],
       Some [10, 0, 0, 5]])"
  using classify_partition [of "example_lib []"
      "[''10.0.0.5'', ''node1.cluster.local'', ''::1'', ''not a host!'', ''node1.cluster.local'',
        ''::ffff:10.0.0.5'']"]
  by (simp add: example_lib_def table_ParseIP_def ip_To4_def ip_To16_def v4InV6Prefix_def)

subsection \<open>The precondition check\<close>

text \<open>
  C4. The command ends with an error of \<open>PreRunE\<close>, in the world it started in (nothing
  read, written, generated or signed), exactly when one of the CA certificate path, the CA
  key path, the organisation name, the output certificate path and the output key path is
  empty. When all five are non-empty \<open>PreRunE\<close> returns \<open>nil\<close> and the command is
  \<open>RunE\<close>. The key size plays no part in the check.
\<close>

theorem PreRunE_precondition:
  "((\<exists>e. PreRunE opt = Some e \<and> execute L opt args w = (Returned (Some e), w))
      = (CA_Crt opt = [] \<or> CA_Key opt = [] \<or> Out_Org opt = [] \<or> Out_Crt opt = []
          \<or> Out_Key opt = []))
   \<and> ((PreRunE opt = None \<and> execute L opt args w = RunE L opt args w)
      = (CA_Crt opt \<noteq> [] \<and> CA_Key opt \<noteq> [] \<and> Out_Org opt \<noteq> [] \<and> Out_Crt opt \<noteq> []
          \<and> Out_Key opt \<noteq> []))
   \<and> PreRunE (opt\<lparr>Out_Bit := bits\<rparr>) = PreRunE opt"
  by (simp add: PreRunE_def execute_def)

theorem PreRunE_precondition_witness:
  "execute (example_lib []) (example_opt\<lparr>Out_Org := []\<rparr>) [] (example_world example_disk)
     = (Returned (Some (Errorf ''Please provide an organisation name.'' [])),
        example_world example_disk)
   \<and> PreRunE (example_opt\<lparr>Out_Bit := - 1\<rparr>) = None"
  using PreRunE_precondition [of "example_opt\<lparr>Out_Org := []\<rparr>" "example_lib []" "[]"
      "example_world example_disk" 0]
    PreRunE_precondition [of example_opt "example_lib []" "[]" "example_world example_disk" "- 1"]
  by (simp add: example_opt_def PreRunE_def)

subsection \<open>Loading the CA material\<close>

text \<open>
  C3. A CA certificate file that can be read but holds no PEM block should make the
  command fail with a format error, before any key is generated and with no file written.
  The source never tests the block that \<open>pem.Decode\<close> returns: on the two-byte file
  \<open>hi\<close> the run ends in Go's nil pointer panic at line 106 instead of returning an error.
  It does so after one file read, with no key generated and the disk as it was.
\<close>

theorem ca_crt_without_pem_block_panics:
  "RunE (example_lib []) example_opt []
     (example_world [(''ca.crt'', [104, 105], 420), (''ca.key'', [2, 48, 129], 384)])
   = (Panicked nil_deref,
      \<lparr> fs = [(''ca.crt'', [104, 105], 420), (''ca.key'', [2, 48, 129], 384)],
        ticks = 0, trace = [EvReadFile ''ca.crt''] \<rparr>)"
  by (simp add: RunE_def example_defs)

text \<open>
  C7. When the CA private key file cannot be read, the error should name that file. The
  source formats the message of line 113 with \<open>CA.Crt\<close>: with a readable \<open>ca.crt\<close> and
  no \<open>ca.key\<close> on disk, the error returned names \<open>ca.crt\<close>.
\<close>

theorem unreadable_ca_key_reported_as_ca_crt:
  "ReadFile (example_lib []) [(''ca.crt'', [1, 48, 130], 420)] (CA_Key example_opt)
     = Inl (LibError ''no such file or directory'')
   \<and> CA_Key example_opt = ''ca.key''
   \<and> fst (RunE (example_lib []) example_opt [] (example_world [(''ca.crt'', [1, 48, 130], 420)]))
     = Returned (Some (Errorf ''Could not read file: %#v'' [StrArg ''ca.crt'']))"
  by (simp add: RunE_def example_defs)

subsection \<open>The certificate template\<close>

text \<open>
  C5, as stated: in every successful issuance the template's \<open>NotBefore\<close> is the
  generation time and \<open>NotAfter\<close> is \<open>NotBefore\<close> plus exactly 10 calendar years. The
  struct literal reads the clock anew for each of the two fields. With the example clock,
  which advances 100 ns between readings, the run succeeds with \<open>NotBefore\<close> at
  2016-11-01 12:00:00 UTC and \<open>NotAfter\<close> 100 ns later than ten years after \<open>NotBefore\<close>.
\<close>

theorem validity_exactly_ten_years_counterexample:
  "fst (RunE (example_lib []) example_opt [] (example_world example_disk)) = Returned None
   \<and> map NotBefore (templates (new_events (example_world example_disk)
        (snd (RunE (example_lib []) example_opt [] (example_world example_disk)))))
      = [1478001600000000000]
   \<and> map NotAfter (templates (new_events (example_world example_disk)
        (snd (RunE (example_lib []) example_opt [] (example_world example_disk)))))
      = [1793534400000000100]
   \<and> AddDate (example_lib []) 1478001600000000000 10 0 0 = 1793534400000000000
   \<and> map NotAfter (templates (new_events (example_world example_disk)
        (snd (RunE (example_lib []) example_opt [] (example_world example_disk)))))
      \<noteq> [AddDate (example_lib []) 1478001600000000000 10 0 0]"
  by (simp add: example_run_ok new_events_def example_world_sel example_lib_sel csr_def
      AddDate_first_reading AddDate_second_reading)

text \<open>
  C5, amended: in every successful issuance exactly one template reaches the signer; its
  \<open>NotBefore\<close> is the first clock reading taken while the template is built, and its
  \<open>NotAfter\<close> is the next, separate clock reading moved forward by 10 calendar years.
\<close>

theorem validity_window:
  assumes "fst (RunE L opt args w) = Returned None"
  shows "map NotBefore (templates (new_events w (snd (RunE L opt args w)))) = [Now L (ticks w)]
    \<and> map NotAfter (templates (new_events w (snd (RunE L opt args w))))
        = [AddDate L (Now L (ticks w + 1)) 10 0 0]"
proof (cases rule: RunE_exits [where L = L and opt = opt and w = w and args = args])
  case (both_written caCrt caKey key tmpl pub enc1 d1 enc2 res d2)
  then show ?thesis
    by (simp add: new_events_def csr_def)
qed (use assms in simp_all)

theorem validity_window_witness:
  "fst (RunE (example_lib []) example_opt [] (example_world example_disk)) = Returned None
   \<and> map NotBefore (templates (new_events (example_world example_disk)
        (snd (RunE (example_lib []) example_opt [] (example_world example_disk)))))
      = [1478001600000000000]
   \<and> map NotAfter (templates (new_events (example_world example_disk)
        (snd (RunE (example_lib []) example_opt [] (example_world example_disk)))))
      = [utc_AddDate 1478001600000000100 10 0 0]"
proof -
  have ok: "fst (RunE (example_lib []) example_opt [] (example_world example_disk)) = Returned None"
    by (simp add: example_run_ok)
  show ?thesis
    using ok validity_window [OF ok]
    by (simp add: example_lib_sel example_world_sel)
qed

text \<open>
  C6. The template \<open>c\<close> built by a run has subject \<open>{CommonName = Out.Com,
  Organization = [Out.Org]}\<close>; its basic constraints are valid and it is not a CA; the
  signature algorithm is SHA-512 with RSA; the serial number is the clock reading taken
  for it (the third of the literal) in nanoseconds since the epoch; the key usage is the
  union of certificate signing, digital signature, key agreement, key encipherment, data
  encipherment and content commitment (non-repudiation), and holds none of the three
  other usage bits; the extended key usage is server authentication then client
  authentication; the DNS names and IP addresses are the two lists of the classifier.
  This template, and no other, is what the run hands to the signer, which it does
  whenever both CA files load and the key generator succeeds.
\<close>

theorem template_contents:
  "let c = csr L opt (fst (classify L args)) (snd (classify L args)) (ticks w) in
     templates (new_events w (snd (RunE L opt args w)))
       = (if isl (load_ca_crt L opt (fs w)) \<or> isl (load_ca_key L opt (fs w))
             \<or> isl (GenerateKey L (Out_Bit opt)) then [] else [c])
     \<and> Subject c = \<lparr>CommonName = Out_Com opt, Organization = [Out_Org opt]\<rparr>
     \<and> BasicConstraintsValid c \<and> \<not> IsCA c
     \<and> SignatureAlgorithm c = SHA512WithRSA
     \<and> SerialNumber c = UnixNano L (Now L (ticks w + 2))
     \<and> KeyUsage c = KeyUsageCertSign OR KeyUsageDigitalSignature OR KeyUsageKeyAgreement
          OR KeyUsageKeyEncipherment OR KeyUsageDataEncipherment OR KeyUsageContentCommitment
     \<and> KeyUsage c AND (KeyUsageCRLSign OR KeyUsageEncipherOnly OR KeyUsageDecipherOnly) = 0
     \<and> ExtKeyUsage c = [ExtKeyUsageServerAuth, ExtKeyUsageClientAuth]
     \<and> DNSNames c = fst (classify L args)
     \<and> IPAddresses c = snd (classify L args)"
proof -
  have run: "templates (new_events w (snd (RunE L opt args w)))
       = (if isl (load_ca_crt L opt (fs w)) \<or> isl (load_ca_key L opt (fs w))
             \<or> isl (GenerateKey L (Out_Bit opt)) then []
          else [csr L opt (fst (classify L args)) (snd (classify L args)) (ticks w)])"
    by (cases rule: RunE_exits [where L = L and opt = opt and w = w and args = args])
       (simp_all add: new_events_def)
  have bits: "(KeyUsageCertSign OR KeyUsageDigitalSignature OR KeyUsageKeyAgreement
          OR KeyUsageKeyEncipherment OR KeyUsageDataEncipherment OR KeyUsageContentCommitment)
        AND (KeyUsageCRLSign OR KeyUsageEncipherOnly OR KeyUsageDecipherOnly) = 0"
    by (simp add: KeyUsageCertSign_def KeyUsageDigitalSignature_def KeyUsageKeyAgreement_def
        KeyUsageKeyEncipherment_def KeyUsageDataEncipherment_def KeyUsageContentCommitment_def
        KeyUsageCRLSign_def KeyUsageEncipherOnly_def KeyUsageDecipherOnly_def)
  show ?thesis
    unfolding Let_def using run bits by (simp add: csr_def)
qed


theorem template_contents_witness:
  "templates (new_events (example_world example_disk)
      (snd (RunE (example_lib []) example_opt [''10.0.0.5'', ''node1.cluster.local'']
         (example_world example_disk))))
   = [\<lparr> Subject = \<lparr>CommonName = ''node1'', Organization = [''Acme'']\<rparr>,
         BasicConstraintsValid = True, IsCA = False,
         SignatureAlgorithm = SHA512WithRSA, PublicKeyAlgorithm = ECDSA,
         NotBefore = 1478001600000000000, NotAfter = 1793534400000000100,
         SerialNumber = 1478001600000000200, KeyUsage = 63,
         ExtKeyUsage = [ExtKeyUsageServerAuth, ExtKeyUsageClientAuth],
         DNSNames = [''node1.cluster.local''], IPAddresses = [Some [10, 0, 0, 5]] \<rparr>]"
  using template_contents [of "example_lib []" example_opt
      "[''10.0.0.5'', ''node1.cluster.local'']" "example_world example_disk"]
  by (simp add: Let_def example_load_defs csr_def classify_def table_ParseIP_def ip_To4_def
      ip_To16_def v4InV6Prefix_def AddDate_second_reading
      KeyUsageCertSign_def KeyUsageDigitalSignature_def KeyUsageKeyAgreement_def
      KeyUsageKeyEncipherment_def KeyUsageDataEncipherment_def KeyUsageContentCommitment_def)

subsection \<open>Writing the two files\<close>

text \<open>
  C8. The file writes of a run have one of three shapes. None at all, and the file system
  is as before. Or one: the write of the certificate to \<open>Out.Crt\<close>, which failed; the run
  returns the error that names \<open>Out.Crt\<close>, the key file is not written, and the file
  system is what that failed write left. Or two: the write of the certificate to
  \<open>Out.Crt\<close>, which succeeded, followed by the write of the key to \<open>Out.Key\<close>; if that
  one failed the run returns the error naming \<open>Out.Key\<close>, and either way the file system
  is what the key write left on top of the successful certificate write: the run does
  nothing to the files afterwards, so nothing is rolled back. The certificate is thus
  always written before the key.
\<close>

theorem certificate_written_before_key:
  "let r = fst (RunE L opt args w); w' = snd (RunE L opt args w);
       ws = writes (new_events w w')
   in (ws = [] \<and> fs w' = fs w)
    \<or> (\<exists>enc e. ws = [(Out_Crt opt, enc, perm_0644, Some e)]
          \<and> WriteFile L (fs w) (Out_Crt opt) enc perm_0644 = (Some e, fs w')
          \<and> r = Returned (Some (Errorf ''Unable to write certificate file to %v: %#v''
                  [StrArg (Out_Crt opt), ErrArg e])))
    \<or> (\<exists>enc1 enc2 d1 res.
          ws = [(Out_Crt opt, enc1, perm_0644, None), (Out_Key opt, enc2, perm_0644, res)]
          \<and> WriteFile L (fs w) (Out_Crt opt) enc1 perm_0644 = (None, d1)
          \<and> WriteFile L d1 (Out_Key opt) enc2 perm_0644 = (res, fs w')
          \<and> r = (case res of
                   Some e \<Rightarrow> Returned (Some (Errorf ''Unable to write private key file to %v: %#v''
                     [StrArg (Out_Key opt), ErrArg e]))
                 | None \<Rightarrow> Returned None))"
  unfolding Let_def
  by (cases rule: RunE_exits [where L = L and opt = opt and w = w and args = args])
     (simp_all add: new_events_def)

theorem certificate_written_before_key_witness:
  "fst (RunE (example_lib [''n.key'']) example_opt [] (example_world example_disk))
     = Returned (Some (Errorf ''Unable to write private key file to %v: %#v''
         [StrArg ''n.key'', ErrArg (LibError ''permission denied'')]))
   \<and> fs (snd (RunE (example_lib [''n.key'']) example_opt [] (example_world example_disk)))
     = (''n.crt'', [1, 48, 130, 7], 420) # example_disk
   \<and> fst (RunE (example_lib [''n.crt'']) example_opt [] (example_world example_disk))
     = Returned (Some (Errorf ''Unable to write certificate file to %v: %#v''
         [StrArg ''n.crt'', ErrArg (LibError ''permission denied'')]))
   \<and> writes (new_events (example_world example_disk)
        (snd (RunE (example_lib [''n.crt'']) example_opt [] (example_world example_disk))))
     = [(''n.crt'', [1, 48, 130, 7], 420, Some (LibError ''permission denied''))]
   \<and> fs (snd (RunE (example_lib [''n.crt'']) example_opt [] (example_world example_disk)))
     = example_disk"
  using certificate_written_before_key [of "example_lib [''n.key'']" example_opt "[]"
      "example_world example_disk"]
    certificate_written_before_key [of "example_lib [''n.crt'']" example_opt "[]"
      "example_world example_disk"]
  by (simp add: RunE_def example_defs)

text \<open>
  C9. In every successful issuance both CA files loaded, a key was generated and the
  signer returned the certificate bytes \<open>pub\<close>. The run makes exactly two writes, both
  with the permission argument \<open>0644\<close> and both successful: first \<open>Out.Crt\<close> receives the
  PEM encoding of the block of type \<open>CERTIFICATE\<close> holding \<open>pub\<close>, then \<open>Out.Key\<close>
  receives the PEM encoding of the block of type \<open>RSA PRIVATE KEY\<close> holding the PKCS#1
  encoding of the new key. Each is one call of \<open>WriteFile\<close>, which replaces a file that
  is already there; the final file system is the result of these two calls.
\<close>

theorem issued_files:
  assumes "fst (RunE L opt args w) = Returned None"
  shows "\<exists>caCrt caKey key pub d1.
      load_ca_crt L opt (fs w) = Inr caCrt \<and> load_ca_key L opt (fs w) = Inr caKey
    \<and> GenerateKey L (Out_Bit opt) = Inr key
    \<and> CreateCertificate L
         (csr L opt (fst (classify L args)) (snd (classify L args)) (ticks w))
         caCrt (PublicKey key) caKey = Inr pub
    \<and> writes (new_events w (snd (RunE L opt args w)))
        = [(Out_Crt opt,
            pem_EncodeToMemory L \<lparr>Type = ''CERTIFICATE'', Headers = [], Bytes = pub\<rparr>,
            perm_0644, None),
           (Out_Key opt,
            pem_EncodeToMemory L \<lparr>Type = ''RSA PRIVATE KEY'', Headers = [],
              Bytes = MarshalPKCS1PrivateKey L key\<rparr>,
            perm_0644, None)]
    \<and> WriteFile L (fs w) (Out_Crt opt)
         (pem_EncodeToMemory L \<lparr>Type = ''CERTIFICATE'', Headers = [], Bytes = pub\<rparr>)
         perm_0644 = (None, d1)
    \<and> WriteFile L d1 (Out_Key opt)
         (pem_EncodeToMemory L \<lparr>Type = ''RSA PRIVATE KEY'', Headers = [],
            Bytes = MarshalPKCS1PrivateKey L key\<rparr>)
         perm_0644 = (None, fs (snd (RunE L opt args w)))
    \<and> perm_0644 = 420"
proof (cases rule: RunE_exits [where L = L and opt = opt and w = w and args = args])
  case (both_written caCrt caKey key tmpl pub enc1 d1 enc2 res d2)
  with assms have "res = None"
    by (cases res) simp_all
  with both_written show ?thesis
    by (simp add: new_events_def perm_0644_def)
qed (use assms in simp_all)

theorem issued_files_witness:
  "fst (RunE (example_lib []) example_opt []
      (example_world ((''n.crt'', [1, 9, 9], 420) # example_disk))) = Returned None
   \<and> writes (new_events (example_world ((''n.crt'', [1, 9, 9], 420) # example_disk))
        (snd (RunE (example_lib []) example_opt []
          (example_world ((''n.crt'', [1, 9, 9], 420) # example_disk)))))
     = [(''n.crt'', tag_EncodeToMemory \<lparr>Type = ''CERTIFICATE'', Headers = [],
           Bytes = [48, 130, 7]\<rparr>, 420, None),
        (''n.key'', tag_EncodeToMemory \<lparr>Type = ''RSA PRIVATE KEY'', Headers = [],
           Bytes = [48, 129, 157]\<rparr>, 420, None)]
   \<and> map_of (fs (snd (RunE (example_lib []) example_opt []
        (example_world ((''n.crt'', [1, 9, 9], 420) # example_disk))))) ''n.crt''
     = Some ([1, 48, 130, 7], 420)
   \<and> map_of (fs (snd (RunE (example_lib []) example_opt []
        (example_world ((''n.crt'', [1, 9, 9], 420) # example_disk))))) ''n.key''
     = Some ([2, 48, 129, 157], 420)"
proof -
  have ok: "fst (RunE (example_lib []) example_opt []
      (example_world ((''n.crt'', [1, 9, 9], 420) # example_disk))) = Returned None"
    by (simp add: RunE_def example_defs)
  show ?thesis
    using ok issued_files [OF ok]
    by (simp add: RunE_def example_defs)
qed

subsection \<open>Failures before the first write\<close>

text \<open>
  The failures that the source tests for: a CA file that cannot be read, a PEM block that
  the X.509 or PKCS#1 parser rejects, a failing key generator, a failing signer. In each
  the run returns an error, writes no file, and leaves the file system as it found it.
\<close>

lemma handled_failure_writes_nothing:
  assumes "(\<exists>e. load_ca_crt L opt (fs w) = Inl (Unreadable e))
    \<or> (\<exists>e. load_ca_crt L opt (fs w) = Inl (Malformed e))
    \<or> (\<exists>caCrt e. load_ca_crt L opt (fs w) = Inr caCrt
          \<and> load_ca_key L opt (fs w) = Inl (Unreadable e))
    \<or> (\<exists>caCrt e. load_ca_crt L opt (fs w) = Inr caCrt
          \<and> load_ca_key L opt (fs w) = Inl (Malformed e))
    \<or> (\<exists>caCrt caKey e. load_ca_crt L opt (fs w) = Inr caCrt
          \<and> load_ca_key L opt (fs w) = Inr caKey
          \<and> GenerateKey L (Out_Bit opt) = Inl e)
    \<or> (\<exists>caCrt caKey key e. load_ca_crt L opt (fs w) = Inr caCrt
          \<and> load_ca_key L opt (fs w) = Inr caKey
          \<and> GenerateKey L (Out_Bit opt) = Inr key
          \<and> CreateCertificate L
               (csr L opt (fst (classify L args)) (snd (classify L args)) (ticks w))
               caCrt (PublicKey key) caKey = Inl e)"
  shows "is_error (fst (RunE L opt args w))
    \<and> fs (snd (RunE L opt args w)) = fs w
    \<and> writes (new_events w (snd (RunE L opt args w))) = []"
  using assms
  by (cases rule: RunE_exits [where L = L and opt = opt and w = w and args = args])
     (auto simp: new_events_def)


lemma handled_failure_writes_nothing_examples:
  "(is_error (fst (RunE (example_lib []) example_opt [] (example_world [])))
    \<and> fs (snd (RunE (example_lib []) example_opt [] (example_world []))) = [])
   \<and> (is_error (fst (RunE (example_lib []) example_opt []
          (example_world [(''ca.crt'', [1, 0], 420)])))
    \<and> fs (snd (RunE (example_lib []) example_opt []
          (example_world [(''ca.crt'', [1, 0], 420)]))) = [(''ca.crt'', [1, 0], 420)])
   \<and> (is_error (fst (RunE (example_lib []) example_opt []
          (example_world [(''ca.crt'', [1, 48, 130], 420)])))
    \<and> fs (snd (RunE (example_lib []) example_opt []
          (example_world [(''ca.crt'', [1, 48, 130], 420)]))) = [(''ca.crt'', [1, 48, 130], 420)])
   \<and> (is_error (fst (RunE (example_lib []) example_opt []
          (example_world [(''ca.crt'', [1, 48, 130], 420), (''ca.key'', [2, 0], 384)])))
    \<and> fs (snd (RunE (example_lib []) example_opt []
          (example_world [(''ca.crt'', [1, 48, 130], 420), (''ca.key'', [2, 0], 384)])))
       = [(''ca.crt'', [1, 48, 130], 420), (''ca.key'', [2, 0], 384)])
   \<and> (is_error (fst (RunE (example_lib []) (example_opt\<lparr>Out_Bit := 1\<rparr>) []
          (example_world example_disk)))
    \<and> fs (snd (RunE (example_lib []) (example_opt\<lparr>Out_Bit := 1\<rparr>) []
          (example_world example_disk))) = example_disk)
   \<and> (is_error (fst (RunE
          ((example_lib [])\<lparr>CreateCertificate := \<lambda>tmpl parent pub priv.
             Inl (LibError ''signing failed'')\<rparr>) example_opt [] (example_world example_disk)))
    \<and> fs (snd (RunE
          ((example_lib [])\<lparr>CreateCertificate := \<lambda>tmpl parent pub priv.
             Inl (LibError ''signing failed'')\<rparr>) example_opt [] (example_world example_disk)))
       = example_disk)"
proof -
  show ?thesis
    using handled_failure_writes_nothing [of "example_lib []" example_opt "example_world []" "[]"]
      handled_failure_writes_nothing [of "example_lib []" example_opt
        "example_world [(''ca.crt'', [1, 0], 420)]" "[]"]
      handled_failure_writes_nothing [of "example_lib []" example_opt
        "example_world [(''ca.crt'', [1, 48, 130], 420)]" "[]"]
      handled_failure_writes_nothing [of "example_lib []" example_opt
        "example_world [(''ca.crt'', [1, 48, 130], 420), (''ca.key'', [2, 0], 384)]" "[]"]
      handled_failure_writes_nothing [of "example_lib []" "example_opt\<lparr>Out_Bit := 1\<rparr>"
        "example_world example_disk" "[]"]
      handled_failure_writes_nothing [of "(example_lib [])\<lparr>CreateCertificate :=
        \<lambda>tmpl parent pub priv. Inl (LibError ''signing failed'')\<rparr>" example_opt
        "example_world example_disk" "[]"]
    by (simp add: RunE_def example_defs load_ca_crt_def load_ca_key_def)
qed

text \<open>
  The failure that the source does not test for: a CA file that holds no PEM block. The
  run panics; it has written no file and generated no key by then.
\<close>

lemma no_pem_block_writes_nothing:
  assumes "load_ca_crt L opt (fs w) = Inl NoPemBlock
    \<or> (\<exists>caCrt. load_ca_crt L opt (fs w) = Inr caCrt
          \<and> load_ca_key L opt (fs w) = Inl NoPemBlock)"
  shows "fst (RunE L opt args w) = Panicked nil_deref
    \<and> fs (snd (RunE L opt args w)) = fs w
    \<and> writes (new_events w (snd (RunE L opt args w))) = []
    \<and> keygens (new_events w (snd (RunE L opt args w))) = []"
  using assms
  by (cases rule: RunE_exits [where L = L and opt = opt and w = w and args = args])
     (auto simp: new_events_def)

text \<open>
  C10. Whenever reading or parsing the CA certificate or the CA private key fails, or key
  generation or signing fails, the run should return an error, with no output file
  created or modified. A CA file that is readable but holds no PEM block is a file that
  does not parse, and there the source returns nothing: with a valid \<open>ca.crt\<close> and a
  \<open>ca.key\<close> holding the two bytes \<open>hi\<close>, the run reads both files and ends in Go's nil
  pointer panic at line 118, and with the two bytes in \<open>ca.crt\<close> instead it ends the
  same way at line 106. Neither run ends by returning an error; the disk is as it was.
\<close>

theorem ca_file_without_pem_block_returns_no_error:
  "RunE (example_lib []) example_opt []
     (example_world [(''ca.crt'', [1, 48, 130], 420), (''ca.key'', [104, 105], 384)])
   = (Panicked nil_deref,
      \<lparr> fs = [(''ca.crt'', [1, 48, 130], 420), (''ca.key'', [104, 105], 384)],
        ticks = 0, trace = [EvReadFile ''ca.crt'', EvReadFile ''ca.key''] \<rparr>)
   \<and> is_error (fst (RunE (example_lib []) example_opt []
        (example_world [(''ca.crt'', [1, 48, 130], 420), (''ca.key'', [104, 105], 384)])))
     = False
   \<and> is_error (fst (RunE (example_lib []) example_opt []
        (example_world [(''ca.crt'', [104, 105], 420), (''ca.key'', [2, 48, 129], 384)])))
     = False"
  by (simp add: RunE_def example_defs)

end
